theory Spec2Isabelle
  imports Complex_Main
begin

section \<open>Errors and Python list indexing\<close>

text \<open>
  The exceptions the modelled code can raise: \<open>IndexError\<close> from indexing the label
  vocabulary, \<open>ValueError\<close> from \<^verbatim>\<open>np.argmax\<close> on a nesting that is no array or on
  an empty score vector, and from removing a column a dataset does not have,
  \<open>ZeroDivisionError\<close> from the evaluator's accuracy on a batch without any tag.
\<close>

datatype error = IndexError | ValueError | ZeroDivisionError

text \<open>
  \<^verbatim>\<open>all_labels[i]\<close> on a Python list of length \<open>n\<close>: an index in \<open>0..n-1\<close> reads from
  the front, an index in \<open>-n..-1\<close> reads from the back, every other index raises.
\<close>

definition getitem :: "'a list \<Rightarrow> int \<Rightarrow> error + 'a" where
  "getitem xs i =
     (if 0 \<le> i \<and> i < int (length xs) then Inr (xs ! nat i)
      else if i < 0 \<and> - int (length xs) \<le> i then Inr (xs ! nat (int (length xs) + i))
      else Inl IndexError)"

text \<open>
  A list comprehension whose element expression may raise: the elements are evaluated
  from left to right and the first exception ends the comprehension.
\<close>

fun map_result :: "('a \<Rightarrow> error + 'b) \<Rightarrow> 'a list \<Rightarrow> error + 'b list" where
  "map_result f [] = Inr []"
| "map_result f (x # xs) =
     (case f x of
        Inl e \<Rightarrow> Inl e
      | Inr y \<Rightarrow> (case map_result f xs of Inl e \<Rightarrow> Inl e | Inr ys \<Rightarrow> Inr (y # ys)))"

section \<open>The metric adapter \<^verbatim>\<open>compute_metrics\<close>\<close>

subsection \<open>\<^verbatim>\<open>np.argmax(predictions, axis=2)\<close>\<close>

text \<open>
  The prediction tensor is given by its rows: a list (batch) of lists (sequence) of score
  vectors. Scores are taken from any linearly ordered type, so NaN is not represented.
  \<open>argmax_from best bv i xs\<close> scans the rest \<open>xs\<close> of a vector, whose next index is \<open>i\<close>,
  holding the index \<open>best\<close> and value \<open>bv\<close> of the first maximum seen so far; a later
  element replaces it only when strictly greater, so ties go to the first occurrence.
  An empty vector has no argmax and raises.
  The nesting must be a three-dimensional array: every example has the same number of
  positions and every position the same number of scores. On any other nesting
  \<^verbatim>\<open>np.argmax\<close> has no axis 2 to reduce and raises.
\<close>

definition all_same_length :: "'a list list \<Rightarrow> bool" where
  "all_same_length xss =
     (case xss of [] \<Rightarrow> True | xs # rest \<Rightarrow> list_all (\<lambda>ys. length ys = length xs) rest)"

definition is_array3 :: "'a list list list \<Rightarrow> bool" where
  "is_array3 predictions \<longleftrightarrow> all_same_length predictions \<and> all_same_length (concat predictions)"

fun argmax_from :: "nat \<Rightarrow> 'a::linorder \<Rightarrow> nat \<Rightarrow> 'a list \<Rightarrow> nat" where
  "argmax_from best bv i [] = best"
| "argmax_from best bv i (x # xs) =
     (if bv < x then argmax_from i x (Suc i) xs else argmax_from best bv (Suc i) xs)"

definition argmax :: "'a::linorder list \<Rightarrow> error + int" where
  "argmax v = (case v of [] \<Rightarrow> Inl ValueError | x # xs \<Rightarrow> Inr (int (argmax_from 0 x 1 xs)))"

definition argmax_axis2 :: "'a::linorder list list list \<Rightarrow> error + int list list" where
  "argmax_axis2 predictions =
     (if is_array3 predictions then map_result (map_result argmax) predictions
      else Inl ValueError)"

subsection \<open>Decoding the kept positions\<close>

text \<open>
  The inner comprehension of \<^verbatim>\<open>true_predictions\<close>, for one example:
  \<^verbatim>\<open>[all_labels[p] for (p, l) in zip(prediction, label) if l != -100]\<close>,
  and the one of \<^verbatim>\<open>true_labels\<close>, which decodes \<open>l\<close> instead of \<open>p\<close>.
  \<open>zip\<close> stops at the end of the shorter row, in Python as in HOL.
\<close>

definition true_predictions_row :: "string list \<Rightarrow> int list \<Rightarrow> int list \<Rightarrow> error + string list" where
  "true_predictions_row all_labels prediction label =
     map_result (\<lambda>(p, l). getitem all_labels p)
       (filter (\<lambda>(p, l). l \<noteq> - 100) (zip prediction label))"

definition true_labels_row :: "string list \<Rightarrow> int list \<Rightarrow> int list \<Rightarrow> error + string list" where
  "true_labels_row all_labels prediction label =
     map_result (\<lambda>(p, l). getitem all_labels l)
       (filter (\<lambda>(p, l). l \<noteq> - 100) (zip prediction label))"

definition true_predictions ::
  "string list \<Rightarrow> int list list \<Rightarrow> int list list \<Rightarrow> error + string list list" where
  "true_predictions all_labels predictions labels =
     map_result (\<lambda>(prediction, label). true_predictions_row all_labels prediction label)
       (zip predictions labels)"

definition true_labels ::
  "string list \<Rightarrow> int list list \<Rightarrow> int list list \<Rightarrow> error + string list list" where
  "true_labels all_labels predictions labels =
     map_result (\<lambda>(prediction, label). true_labels_row all_labels prediction label)
       (zip predictions labels)"

subsection \<open>The evaluator's results and the returned dictionary\<close>

record 'v seqeval_results =
  overall_precision :: 'v
  overall_recall :: 'v
  overall_f1 :: 'v
  overall_accuracy :: 'v

record 'v metrics =
  precision :: 'v
  recall :: 'v
  f1 :: 'v
  accuracy :: 'v

text \<open>
  \<^verbatim>\<open>compute_metrics(p)\<close>. The module-level names it reads are parameters: the external
  evaluator \<open>seqeval_compute\<close> (called with the decoded predictions and references) and
  the label vocabulary \<open>all_labels\<close>. The three stages run in the source's order and the
  first exception is the result.
\<close>

definition compute_metrics ::
  "(string list list \<Rightarrow> string list list \<Rightarrow> error + 'v seqeval_results) \<Rightarrow> string list \<Rightarrow>
   'a::linorder list list list \<times> int list list \<Rightarrow> error + 'v metrics" where
  "compute_metrics seqeval_compute all_labels p =
     (case p of (predictions, labels) \<Rightarrow>
     (case argmax_axis2 predictions of
        Inl e \<Rightarrow> Inl e
      | Inr predictions' \<Rightarrow>
     (case true_predictions all_labels predictions' labels of
        Inl e \<Rightarrow> Inl e
      | Inr decoded_predictions \<Rightarrow>
     (case true_labels all_labels predictions' labels of
        Inl e \<Rightarrow> Inl e
      | Inr decoded_labels \<Rightarrow>
     (case seqeval_compute decoded_predictions decoded_labels of
        Inl e \<Rightarrow> Inl e
      | Inr results \<Rightarrow>
          Inr \<lparr>precision = overall_precision results,
               recall = overall_recall results,
               f1 = overall_f1 results,
               accuracy = overall_accuracy results\<rparr>)))))"

subsection \<open>Positions and index ranges\<close>

text \<open>
  The positions of one example that \<open>zip\<close> pairs and the filter keeps, in increasing
  order: those below the length of the shorter row whose reference id is not \<open>-100\<close>.
\<close>

definition kept_positions :: "int list \<Rightarrow> int list \<Rightarrow> nat list" where
  "kept_positions prediction label =
     filter (\<lambda>i. label ! i \<noteq> - 100) [0..<min (length prediction) (length label)]"

text \<open>The ids that indexing a vocabulary of \<open>n\<close> tags accepts: \<open>-n \<le> i < n\<close>.\<close>

definition in_index_range :: "'a list \<Rightarrow> int \<Rightarrow> bool" where
  "in_index_range xs i \<longleftrightarrow> - int (length xs) \<le> i \<and> i < int (length xs)"

text \<open>
  What the specification calls the argmax of a score vector \<open>v\<close>: an index of \<open>v\<close> whose
  score no other score exceeds; among several, the first.
\<close>

definition is_first_max :: "'a::linorder list \<Rightarrow> int \<Rightarrow> bool" where
  "is_first_max v k \<longleftrightarrow>
     0 \<le> k \<and> nat k < length v \<and> (\<forall>j<length v. v ! j \<le> v ! nat k) \<and> (\<forall>j<nat k. v ! j < v ! nat k)"

subsection \<open>The sequence-labelling evaluator\<close>

text \<open>
  Modelled from the spec: the evaluator \<^verbatim>\<open>seqeval\<close> that \<^verbatim>\<open>compute_metrics\<close> calls is an
  external package and is not among the sources. Section 4.1, step 5 describes it: an
  entity span is a maximal run of non-\<open>O\<close> tags sharing a type, under the B-/I- tagging
  convention; precision, recall and F1 are computed over spans, accuracy over raw tags.
  A tag's type is what follows its \<open>B-\<close> or \<open>I-\<close> prefix. \<open>spans_from i cur ts\<close> scans the
  tags \<open>ts\<close> of one sequence from position \<open>i\<close>, with \<open>cur\<close> the type and start of the run
  that is open; a span is (type, start, end). A run ends before an \<open>O\<close>, before a \<open>B-\<close>
  tag and before a tag of another type.
\<close>

definition tag_type :: "string \<Rightarrow> string" where
  "tag_type t = (if take 2 t = ''B-'' \<or> take 2 t = ''I-'' then drop 2 t else t)"

definition begins_span :: "string \<Rightarrow> bool" where
  "begins_span t \<longleftrightarrow> take 2 t = ''B-''"

definition close_span :: "(string \<times> nat) option \<Rightarrow> nat \<Rightarrow> (string \<times> nat \<times> nat) list" where
  "close_span cur i = (case cur of None \<Rightarrow> [] | Some (ty, s) \<Rightarrow> [(ty, s, i)])"

fun spans_from :: "nat \<Rightarrow> (string \<times> nat) option \<Rightarrow> string list \<Rightarrow> (string \<times> nat \<times> nat) list" where
  "spans_from i cur [] = close_span cur i"
| "spans_from i cur (t # ts) =
     (if t = ''O'' then close_span cur i @ spans_from (Suc i) None ts
      else if \<not> begins_span t \<and> map_option fst cur = Some (tag_type t) then spans_from (Suc i) cur ts
      else close_span cur i @ spans_from (Suc i) (Some (tag_type t, i)) ts)"

text \<open>
  Modelled from the spec: the spans of a batch are the spans of its sequences, each with
  the index of its sequence.
\<close>

definition spans :: "string list list \<Rightarrow> (nat \<times> string \<times> nat \<times> nat) list" where
  "spans seqs =
     concat (map (\<lambda>(b, ts). map (\<lambda>sp. (b, sp)) (spans_from 0 None ts)) (zip [0..<length seqs] seqs))"

text \<open>
  Modelled from the spec: a score is a ratio of two counts. The specification gives no
  value for a ratio whose denominator is zero (no span, no tag), so such a ratio is
  \<open>None\<close>. F1 is the harmonic mean of precision and recall.
\<close>

definition ratio :: "nat \<Rightarrow> nat \<Rightarrow> rat option" where
  "ratio a b = (if b = 0 then None else Some (of_nat a / of_nat b))"

definition harmonic_mean :: "rat option \<Rightarrow> rat option \<Rightarrow> rat option" where
  "harmonic_mean p r =
     (case p of
        None \<Rightarrow> None
      | Some x \<Rightarrow> (case r of
          None \<Rightarrow> None
        | Some y \<Rightarrow> if x + y = 0 then None else Some (2 * x * y / (x + y))))"

text \<open>
  Modelled from the spec: precision is the share of predicted spans that are reference
  spans, recall the share of reference spans that are predicted spans, and accuracy the
  share of raw tag positions at which the predicted tag is the reference tag. A span
  ratio without a value is reported as \<open>None\<close>. The accuracy is a plain division of the
  two counts: on a batch without any tag the evaluator divides by zero and raises.
\<close>

definition correct_spans :: "string list list \<Rightarrow> string list list \<Rightarrow> nat" where
  "correct_spans predictions references =
     length (filter (\<lambda>sp. sp \<in> set (spans references)) (spans predictions))"

definition raw_tag_accuracy :: "string list list \<Rightarrow> string list list \<Rightarrow> rat option" where
  "raw_tag_accuracy predictions references =
     ratio (length (filter (\<lambda>(p, t). p = t) (zip (concat predictions) (concat references))))
       (length (concat references))"

definition seqeval_compute ::
  "string list list \<Rightarrow> string list list \<Rightarrow> error + (rat option) seqeval_results" where
  "seqeval_compute predictions references =
     (let p = ratio (correct_spans predictions references) (length (spans predictions));
          r = ratio (correct_spans predictions references) (length (spans references))
      in case raw_tag_accuracy predictions references of
           None \<Rightarrow> Inl ZeroDivisionError
         | Some a \<Rightarrow>
             Inr \<lparr>overall_precision = p,
                  overall_recall = r,
                  overall_f1 = harmonic_mean p r,
                  overall_accuracy = Some a\<rparr>)"

section \<open>The training-run builder \<^verbatim>\<open>get_trainer\<close>: the dataset columns\<close>

text \<open>
  A dataset is its columns, each a name with the column's data, the names distinct.
  \<^verbatim>\<open>remove_columns\<close> is the dataset library's method: it drops the named columns and
  raises when a name is not a column of the dataset.
\<close>

type_synonym 'c dataset = "(string \<times> 'c) list"

definition column_names :: "'c dataset \<Rightarrow> string list" where
  "column_names ds = map fst ds"

definition remove_columns :: "'c dataset \<Rightarrow> string list \<Rightarrow> error + 'c dataset" where
  "remove_columns ds names =
     (if set names \<subseteq> set (column_names ds)
      then Inr (filter (\<lambda>(n, c). n \<notin> set names) ds)
      else Inl ValueError)"

text \<open>
  Lines 93 to 99 of \<^verbatim>\<open>get_trainer\<close>: the list of columns to remove is computed from the
  train dataset alone and applied to both datasets. The result is the pair of datasets
  handed to the trainer.
\<close>

definition columns_to_remove :: "'c dataset \<Rightarrow> string list" where
  "columns_to_remove train_dataset =
     filter (\<lambda>col. col \<notin> {''input_ids'', ''labels''}) (column_names train_dataset)"

definition get_trainer_datasets :: "'c dataset \<Rightarrow> 'c dataset \<Rightarrow> error + ('c dataset \<times> 'c dataset)" where
  "get_trainer_datasets train_dataset val_dataset =
     (case remove_columns train_dataset (columns_to_remove train_dataset) of
        Inl e \<Rightarrow> Inl e
      | Inr train_dataset' \<Rightarrow>
     (case remove_columns val_dataset (columns_to_remove train_dataset) of
        Inl e \<Rightarrow> Inl e
      | Inr val_dataset' \<Rightarrow> Inr (train_dataset', val_dataset')))"

section \<open>Properties of the comprehension model\<close>

lemma map_result_Inr_iff: "map_result f xs = Inr ys \<longleftrightarrow> map f xs = map Inr ys"
proof (induction xs arbitrary: ys)
  case Nil
  then show ?case by auto
next
  case (Cons x xs)
  show ?case
  proof (cases "f x")
    case (Inl e)
    then show ?thesis by (cases ys) auto
  next
    case (Inr y)
    show ?thesis
    proof (cases "map_result f xs")
      case (Inl e)
      have "\<And>zs. map f xs \<noteq> map Inr zs" using Cons.IH Inl by fastforce
      with Inl Inr show ?thesis by (cases ys) auto
    next
      case r: (Inr zs)
      from Cons.IH [of zs] r have "map f xs = map Inr zs" by simp
      with r Inr show ?thesis by (cases ys) (auto simp: inj_map_eq_map [OF inj_Inr])
    qed
  qed
qed

lemma map_result_length: "map_result f xs = Inr ys \<Longrightarrow> length ys = length xs"
proof -
  assume "map_result f xs = Inr ys"
  then have "map f xs = map Inr ys" by (simp only: map_result_Inr_iff)
  then have "length xs = length ys" by (rule map_eq_imp_length_eq)
  then show ?thesis by simp
qed

lemma map_result_nth:
  "map_result f xs = Inr ys \<Longrightarrow> i < length xs \<Longrightarrow> f (xs ! i) = Inr (ys ! i)"
proof -
  assume r: "map_result f xs = Inr ys" and i: "i < length xs"
  from r have m: "map f xs = map Inr ys" by (simp only: map_result_Inr_iff)
  then have l: "length xs = length ys" by (rule map_eq_imp_length_eq)
  have "f (xs ! i) = map f xs ! i" using i by simp
  also have "\<dots> = map Inr ys ! i" by (simp only: m)
  also have "\<dots> = Inr (ys ! i)" using i l by simp
  finally show ?thesis .
qed

lemma map_result_cong:
  "(\<And>x. x \<in> set xs \<Longrightarrow> f x = g x) \<Longrightarrow> map_result f xs = map_result g xs"
proof (induction xs)
  case Nil
  then show ?case by simp
next
  case (Cons a xs)
  have "f a = g a" by (rule Cons.prems) simp
  moreover have "map_result f xs = map_result g xs"
    by (rule Cons.IH) (simp add: Cons.prems)
  ultimately show ?case by (simp split: sum.splits)
qed

lemma map_result_total:
  "(\<And>x. x \<in> set xs \<Longrightarrow> \<exists>y. f x = Inr y) \<Longrightarrow> \<exists>ys. map_result f xs = Inr ys"
proof (induction xs)
  case Nil
  then show ?case by simp
next
  case (Cons x xs)
  have "\<exists>y. f x = Inr y" by (rule Cons.prems) simp
  then obtain y where y: "f x = Inr y" by blast
  have "\<exists>ys. map_result f xs = Inr ys" by (rule Cons.IH) (simp add: Cons.prems)
  then obtain ys where "map_result f xs = Inr ys" by blast
  with y show ?case by simp
qed

lemma map_result_fails:
  assumes "x \<in> set xs" and "f x = Inl e"
    and "\<And>z e'. z \<in> set xs \<Longrightarrow> f z = Inl e' \<Longrightarrow> e' = e"
  shows "map_result f xs = Inl e"
  using assms
proof (induction xs)
  case Nil
  then show ?case by simp
next
  case (Cons a xs)
  show ?case
  proof (cases "f a")
    case (Inl e')
    have "e' = e" by (rule Cons.prems(3) [of a e']) (simp_all add: Inl)
    with Inl show ?thesis by simp
  next
    case (Inr y)
    with Cons.prems(1,2) have "x \<in> set xs" by auto
    then have "map_result f xs = Inl e"
    proof (rule Cons.IH)
      show "f x = Inl e" by (rule Cons.prems(2))
    next
      fix z e' assume "z \<in> set xs" "f z = Inl e'"
      then show "e' = e" using Cons.prems(3) [of z e'] by simp
    qed
    with Inr show ?thesis by simp
  qed
qed

section \<open>Properties of indexing and of the kept positions\<close>

lemma getitem_in_range: "in_index_range xs i \<Longrightarrow> \<exists>y. getitem xs i = Inr y"
  by (simp add: getitem_def in_index_range_def)

lemma getitem_out_of_range: "\<not> in_index_range xs i \<Longrightarrow> getitem xs i = Inl IndexError"
  by (auto simp add: getitem_def in_index_range_def)

lemma getitem_error: "getitem xs i = Inl e \<Longrightarrow> e = IndexError"
  by (simp add: getitem_def split: if_splits)

lemma filter_zip_positions:
  "filter P (zip xs ys) =
     map (\<lambda>i. (xs ! i, ys ! i)) (filter (\<lambda>i. P (xs ! i, ys ! i)) [0..<min (length xs) (length ys)])"
proof -
  have a: "map (\<lambda>i. zip xs ys ! i) [0..<length (zip xs ys)] = zip xs ys"
    by (rule map_nth)
  have b: "map (\<lambda>i. zip xs ys ! i) [0..<length (zip xs ys)] =
      map (\<lambda>i. (xs ! i, ys ! i)) [0..<min (length xs) (length ys)]"
    by (rule map_cong) auto
  from a b have "zip xs ys = map (\<lambda>i. (xs ! i, ys ! i)) [0..<min (length xs) (length ys)]"
    by (simp only:)
  then have "filter P (zip xs ys) = filter P (map (\<lambda>i. (xs ! i, ys ! i)) [0..<min (length xs) (length ys)])"
    by (rule arg_cong)
  then show ?thesis by (simp add: filter_map comp_def)
qed

lemma kept_pairs:
  "filter (\<lambda>(p, l). l \<noteq> - 100) (zip prediction label) =
     map (\<lambda>i. (prediction ! i, label ! i)) (kept_positions prediction label)"
  unfolding kept_positions_def by (simp add: filter_zip_positions)

lemma true_predictions_row_Inr:
  "true_predictions_row all_labels prediction label = Inr tp \<Longrightarrow>
   map Inr tp = map (\<lambda>i. getitem all_labels (prediction ! i)) (kept_positions prediction label)"
  unfolding true_predictions_row_def map_result_Inr_iff kept_pairs by (simp add: comp_def)

lemma true_labels_row_Inr:
  "true_labels_row all_labels prediction label = Inr tls \<Longrightarrow>
   map Inr tls = map (\<lambda>i. getitem all_labels (label ! i)) (kept_positions prediction label)"
  unfolding true_labels_row_def map_result_Inr_iff kept_pairs by (simp add: comp_def)

lemma true_predictions_length:
  "true_predictions all_labels predictions labels = Inr tps \<Longrightarrow>
   length tps = min (length predictions) (length labels)"
  unfolding true_predictions_def by (drule map_result_length) simp

lemma true_labels_length:
  "true_labels all_labels predictions labels = Inr tls \<Longrightarrow>
   length tls = min (length predictions) (length labels)"
  unfolding true_labels_def by (drule map_result_length) simp

lemma true_predictions_nth:
  "true_predictions all_labels predictions labels = Inr tps \<Longrightarrow>
   b < min (length predictions) (length labels) \<Longrightarrow>
   true_predictions_row all_labels (predictions ! b) (labels ! b) = Inr (tps ! b)"
  unfolding true_predictions_def by (drule map_result_nth [where i = b]) simp_all

lemma true_labels_nth:
  "true_labels all_labels predictions labels = Inr tls \<Longrightarrow>
   b < min (length predictions) (length labels) \<Longrightarrow>
   true_labels_row all_labels (predictions ! b) (labels ! b) = Inr (tls ! b)"
  unfolding true_labels_def by (drule map_result_nth [where i = b]) simp_all

lemma kept_positions_mem:
  "i \<in> set (kept_positions prediction label) \<longleftrightarrow>
     i < min (length prediction) (length label) \<and> label ! i \<noteq> - 100"
  unfolding kept_positions_def by auto

lemma kept_positions_increasing: "sorted_wrt (<) (kept_positions prediction label)"
  unfolding kept_positions_def by (rule sorted_wrt_filter) (simp add: sorted_wrt_upt)

section \<open>The decoded sequences\<close>

text \<open>
  C1. Of the positions that \<open>zip\<close> pairs in an example (those present in both the
  prediction row and the label row), exactly the ones whose reference id is \<open>-100\<close> are
  dropped: the kept positions are the others, in increasing order, and whenever decoding
  returns, the decoded predicted sequence and the decoded reference sequence of every
  example are the tags of the predicted ids and of the reference ids at the kept
  positions, in that order.
\<close>

theorem C1_sentinel_positions_dropped_in_order:
  assumes "true_predictions all_labels predictions labels = Inr tps"
    and "true_labels all_labels predictions labels = Inr tls"
    and "b < min (length predictions) (length labels)"
  shows "(\<forall>i<min (length (predictions ! b)) (length (labels ! b)).
            i \<notin> set (kept_positions (predictions ! b) (labels ! b)) \<longleftrightarrow> labels ! b ! i = - 100)
       \<and> sorted_wrt (<) (kept_positions (predictions ! b) (labels ! b))
       \<and> map Inr (tps ! b) =
           map (\<lambda>i. getitem all_labels (predictions ! b ! i)) (kept_positions (predictions ! b) (labels ! b))
       \<and> map Inr (tls ! b) =
           map (\<lambda>i. getitem all_labels (labels ! b ! i)) (kept_positions (predictions ! b) (labels ! b))"
proof -
  have 1: "\<forall>i<min (length (predictions ! b)) (length (labels ! b)).
            i \<notin> set (kept_positions (predictions ! b) (labels ! b)) \<longleftrightarrow> labels ! b ! i = - 100"
    by (simp add: kept_positions_mem)
  have 2: "sorted_wrt (<) (kept_positions (predictions ! b) (labels ! b))"
    by (rule kept_positions_increasing)
  have 3: "map Inr (tps ! b) =
           map (\<lambda>i. getitem all_labels (predictions ! b ! i)) (kept_positions (predictions ! b) (labels ! b))"
    by (rule true_predictions_row_Inr) (rule true_predictions_nth [OF assms(1) assms(3)])
  have 4: "map Inr (tls ! b) =
           map (\<lambda>i. getitem all_labels (labels ! b ! i)) (kept_positions (predictions ! b) (labels ! b))"
    by (rule true_labels_row_Inr) (rule true_labels_nth [OF assms(2) assms(3)])
  from 1 2 3 4 show ?thesis by (intro conjI)
qed

theorem C1_witness:
  "true_predictions [''O'', ''B-PER''] [[0, 1, 1]] [[0, - 100, 1]] = Inr [[''O'', ''B-PER'']]
   \<and> true_labels [''O'', ''B-PER''] [[0, 1, 1]] [[0, - 100, 1]] = Inr [[''O'', ''B-PER'']]
   \<and> (0::nat) < min (length [[0, 1, 1 :: int]]) (length [[0, - 100, 1 :: int]])
   \<and> kept_positions [0, 1, 1] [0, - 100, 1] = [0, 2]
   \<and> map Inr [''O'', ''B-PER''] =
        map (\<lambda>i. getitem [''O'', ''B-PER''] ([0, 1, 1] ! i)) (kept_positions [0, 1, 1] [0, - 100, 1])"
proof -
  have a: "true_predictions [''O'', ''B-PER''] [[0, 1, 1]] [[0, - 100, 1]] = Inr [[''O'', ''B-PER'']]"
    by code_simp
  have b: "true_labels [''O'', ''B-PER''] [[0, 1, 1]] [[0, - 100, 1]] = Inr [[''O'', ''B-PER'']]"
    by code_simp
  have c: "(0::nat) < min (length [[0, 1, 1 :: int]]) (length [[0, - 100, 1 :: int]])"
    by simp
  have d: "kept_positions [0, 1, 1] [0, - 100, 1] = [0, 2]"
    by code_simp
  from C1_sentinel_positions_dropped_in_order [OF a b c] a b c d show ?thesis by simp
qed

text \<open>
  C2. Whenever decoding returns, there are as many decoded predicted sequences as decoded
  reference sequences, and for every example the two have the same length.
\<close>

theorem C2_decoded_lengths_equal:
  assumes "true_predictions all_labels predictions labels = Inr tps"
    and "true_labels all_labels predictions labels = Inr tls"
  shows "length tps = length tls \<and> (\<forall>b<length tps. length (tps ! b) = length (tls ! b))"
proof -
  have n: "length tps = min (length predictions) (length labels)"
    by (rule true_predictions_length [OF assms(1)])
  have m: "length tls = min (length predictions) (length labels)"
    by (rule true_labels_length [OF assms(2)])
  have "length (tps ! b) = length (tls ! b)" if "b < length tps" for b
  proof -
    from that n have b: "b < min (length predictions) (length labels)" by simp
    have "map Inr (tps ! b) =
        map (\<lambda>i. getitem all_labels (predictions ! b ! i)) (kept_positions (predictions ! b) (labels ! b))"
      by (rule true_predictions_row_Inr) (rule true_predictions_nth [OF assms(1) b])
    then have 1: "length (tps ! b) = length (kept_positions (predictions ! b) (labels ! b))"
      by (rule map_eq_imp_length_eq)
    have "map Inr (tls ! b) =
        map (\<lambda>i. getitem all_labels (labels ! b ! i)) (kept_positions (predictions ! b) (labels ! b))"
      by (rule true_labels_row_Inr) (rule true_labels_nth [OF assms(2) b])
    then have 2: "length (tls ! b) = length (kept_positions (predictions ! b) (labels ! b))"
      by (rule map_eq_imp_length_eq)
    from 1 2 show ?thesis by simp
  qed
  with n m show ?thesis by simp
qed

theorem C2_witness:
  "true_predictions [''O'', ''B-PER'', ''I-PER''] [[1, 2, 0], [0, 0]] [[1, - 100, 2], [- 100, 0]]
     = Inr [[''B-PER'', ''O''], [''O'']]
   \<and> true_labels [''O'', ''B-PER'', ''I-PER''] [[1, 2, 0], [0, 0]] [[1, - 100, 2], [- 100, 0]]
     = Inr [[''B-PER'', ''I-PER''], [''O'']]
   \<and> length [[''B-PER'', ''O''], [''O'']] = length [[''B-PER'', ''I-PER''], [''O'']]
   \<and> length ([[''B-PER'', ''O''], [''O'']] ! 0) = length ([[''B-PER'', ''I-PER''], [''O'']] ! 0)
   \<and> length ([[''B-PER'', ''O''], [''O'']] ! 1) = length ([[''B-PER'', ''I-PER''], [''O'']] ! 1)"
proof -
  have a: "true_predictions [''O'', ''B-PER'', ''I-PER''] [[1, 2, 0], [0, 0]] [[1, - 100, 2], [- 100, 0]]
     = Inr [[''B-PER'', ''O''], [''O'']]"
    by code_simp
  have b: "true_labels [''O'', ''B-PER'', ''I-PER''] [[1, 2, 0], [0, 0]] [[1, - 100, 2], [- 100, 0]]
     = Inr [[''B-PER'', ''I-PER''], [''O'']]"
    by code_simp
  from C2_decoded_lengths_equal [OF a b] a b show ?thesis by (intro conjI) simp_all
qed

subsection \<open>Masked examples and rows of different length\<close>

lemma kept_pairs_all_sentinel:
  "\<forall>l\<in>set label. l = - 100 \<Longrightarrow> filter (\<lambda>(p, l). l \<noteq> - 100) (zip prediction label) = []"
  by (auto simp: filter_empty_conv dest: set_zip_rightD)



lemma rows_decodable:
  assumes "\<forall>i<min (length prediction) (length label).
      label ! i \<noteq> - 100 \<longrightarrow> in_index_range all_labels (prediction ! i) \<and> in_index_range all_labels (label ! i)"
  shows "\<exists>tp. true_predictions_row all_labels prediction label = Inr tp"
    and "\<exists>tls. true_labels_row all_labels prediction label = Inr tls"
proof -
  have r: "in_index_range all_labels p \<and> in_index_range all_labels l"
    if "(p, l) \<in> set (zip prediction label)" and "l \<noteq> - 100" for p l
  proof -
    from that obtain i where "i < min (length prediction) (length label)" "prediction ! i = p" "label ! i = l"
      by (auto simp: set_zip)
    with assms \<open>l \<noteq> - 100\<close> show ?thesis by auto
  qed
  show "\<exists>tp. true_predictions_row all_labels prediction label = Inr tp"
    unfolding true_predictions_row_def
    by (rule map_result_total) (auto dest!: r intro: getitem_in_range)
  show "\<exists>tls. true_labels_row all_labels prediction label = Inr tls"
    unfolding true_labels_row_def
    by (rule map_result_total) (auto dest!: r intro: getitem_in_range)
qed

lemma batch_decodable:
  assumes "\<forall>b<min (length predictions) (length labels).
      \<forall>i<min (length (predictions ! b)) (length (labels ! b)). labels ! b ! i \<noteq> - 100 \<longrightarrow>
        in_index_range all_labels (predictions ! b ! i) \<and> in_index_range all_labels (labels ! b ! i)"
  shows "\<exists>tps. true_predictions all_labels predictions labels = Inr tps"
    and "\<exists>tls. true_labels all_labels predictions labels = Inr tls"
proof -
  have r: "\<forall>i<min (length prediction) (length label). label ! i \<noteq> - 100 \<longrightarrow>
        in_index_range all_labels (prediction ! i) \<and> in_index_range all_labels (label ! i)"
    if "(prediction, label) \<in> set (zip predictions labels)" for prediction label
  proof -
    from that obtain b where "b < min (length predictions) (length labels)"
      and "predictions ! b = prediction" and "labels ! b = label"
      by (auto simp: set_zip)
    with assms show ?thesis by blast
  qed
  show "\<exists>tps. true_predictions all_labels predictions labels = Inr tps"
    unfolding true_predictions_def
  proof (rule map_result_total)
    fix z assume z: "z \<in> set (zip predictions labels)"
    obtain prediction label where pl: "z = (prediction, label)" by (cases z)
    from z pl have "\<exists>tp. true_predictions_row all_labels prediction label = Inr tp"
      by (intro rows_decodable r) simp
    with pl show "\<exists>y. (case z of (prediction, label) \<Rightarrow>
        true_predictions_row all_labels prediction label) = Inr y"
      by simp
  qed
  show "\<exists>tls. true_labels all_labels predictions labels = Inr tls"
    unfolding true_labels_def
  proof (rule map_result_total)
    fix z assume z: "z \<in> set (zip predictions labels)"
    obtain prediction label where pl: "z = (prediction, label)" by (cases z)
    from z pl have "\<exists>tls. true_labels_row all_labels prediction label = Inr tls"
      by (intro rows_decodable r) simp
    with pl show "\<exists>y. (case z of (prediction, label) \<Rightarrow>
        true_labels_row all_labels prediction label) = Inr y"
      by simp
  qed
qed

lemma compute_metrics_decoded:
  assumes "argmax_axis2 predictions = Inr ids"
    and "true_predictions all_labels ids labels = Inr tps"
    and "true_labels all_labels ids labels = Inr tls"
  shows "compute_metrics ev all_labels (predictions, labels) =
     (case ev tps tls of
        Inl e \<Rightarrow> Inl e
      | Inr results \<Rightarrow>
          Inr \<lparr>precision = overall_precision results, recall = overall_recall results,
               f1 = overall_f1 results, accuracy = overall_accuracy results\<rparr>)"
  by (simp add: compute_metrics_def assms)

lemma seqeval_compute_returns:
  "concat references \<noteq> [] \<Longrightarrow> \<exists>results. seqeval_compute predictions references = Inr results"
  by (simp add: seqeval_compute_def Let_def raw_tag_accuracy_def ratio_def)

lemma seqeval_compute_raises:
  "concat references = [] \<Longrightarrow> seqeval_compute predictions references = Inl ZeroDivisionError"
  by (simp add: seqeval_compute_def Let_def raw_tag_accuracy_def ratio_def)

text \<open>
  C4, as the code has it. An example whose reference ids are all \<open>-100\<close> decodes,
  whatever its prediction row and the vocabulary, to the empty predicted sequence and the
  empty reference sequence, and decoding it raises nothing. When the other examples
  decode as well, \<^verbatim>\<open>compute_metrics\<close> hands the evaluator the decoded batch, with the two
  empty sequences at that example, and returns what the evaluator returns. With the
  evaluator's accuracy it returns when the batch has a kept position and raises the
  evaluator's division by zero when it has none.
\<close>

theorem C4_all_masked_example_decodes_to_empty:
  assumes "argmax_axis2 predictions = Inr ids"
    and "b < min (length ids) (length labels)"
    and "\<forall>l\<in>set (labels ! b). l = - 100"
    and "\<forall>b'<min (length ids) (length labels). b' \<noteq> b \<longrightarrow>
           (\<forall>i<min (length (ids ! b')) (length (labels ! b')). labels ! b' ! i \<noteq> - 100 \<longrightarrow>
              in_index_range all_labels (ids ! b' ! i) \<and> in_index_range all_labels (labels ! b' ! i))"
  shows "true_predictions_row all_labels (ids ! b) (labels ! b) = Inr []
       \<and> true_labels_row all_labels (ids ! b) (labels ! b) = Inr []
       \<and> (\<exists>tps tls.
             true_predictions all_labels ids labels = Inr tps
           \<and> true_labels all_labels ids labels = Inr tls
           \<and> tps ! b = [] \<and> tls ! b = []
           \<and> compute_metrics ev all_labels (predictions, labels) =
               (case ev tps tls of
                  Inl e \<Rightarrow> Inl e
                | Inr results \<Rightarrow>
                    Inr \<lparr>precision = overall_precision results, recall = overall_recall results,
                         f1 = overall_f1 results, accuracy = overall_accuracy results\<rparr>)
           \<and> (concat tls \<noteq> [] \<longrightarrow>
                (\<exists>m. compute_metrics seqeval_compute all_labels (predictions, labels) = Inr m))
           \<and> (concat tls = [] \<longrightarrow>
                compute_metrics seqeval_compute all_labels (predictions, labels) =
                Inl ZeroDivisionError))"
proof -
  have 1: "true_predictions_row all_labels (ids ! b) (labels ! b) = Inr []"
    unfolding true_predictions_row_def by (simp add: kept_pairs_all_sentinel [OF assms(3)])
  have 2: "true_labels_row all_labels (ids ! b) (labels ! b) = Inr []"
    unfolding true_labels_row_def by (simp add: kept_pairs_all_sentinel [OF assms(3)])
  have d: "\<forall>b'<min (length ids) (length labels).
      \<forall>i<min (length (ids ! b')) (length (labels ! b')). labels ! b' ! i \<noteq> - 100 \<longrightarrow>
        in_index_range all_labels (ids ! b' ! i) \<and> in_index_range all_labels (labels ! b' ! i)"
  proof (intro allI impI)
    fix b' i
    assume b': "b' < min (length ids) (length labels)"
      and i: "i < min (length (ids ! b')) (length (labels ! b'))"
      and k: "labels ! b' ! i \<noteq> - 100"
    have "b' \<noteq> b"
    proof
      assume "b' = b"
      with i have "labels ! b ! i \<in> set (labels ! b)" by simp
      with assms(3) have "labels ! b ! i = - 100" by blast
      with k \<open>b' = b\<close> show False by simp
    qed
    with assms(4) b' i k
    show "in_index_range all_labels (ids ! b' ! i) \<and> in_index_range all_labels (labels ! b' ! i)"
      by blast
  qed
  from batch_decodable(1) [OF d] obtain tps
    where tps: "true_predictions all_labels ids labels = Inr tps" by blast
  from batch_decodable(2) [OF d] obtain tls
    where tls: "true_labels all_labels ids labels = Inr tls" by blast
  have 3: "tps ! b = []"
    using true_predictions_nth [OF tps assms(2)] 1 by simp
  have 4: "tls ! b = []"
    using true_labels_nth [OF tls assms(2)] 2 by simp
  have 5: "compute_metrics ev all_labels (predictions, labels) =
               (case ev tps tls of
                  Inl e \<Rightarrow> Inl e
                | Inr results \<Rightarrow>
                    Inr \<lparr>precision = overall_precision results, recall = overall_recall results,
                         f1 = overall_f1 results, accuracy = overall_accuracy results\<rparr>)"
    for ev :: "string list list \<Rightarrow> string list list \<Rightarrow> error + 'v seqeval_results"
    by (rule compute_metrics_decoded [OF assms(1) tps tls])
  have 6: "\<exists>m. compute_metrics seqeval_compute all_labels (predictions, labels) = Inr m"
    if "concat tls \<noteq> []"
  proof -
    from that obtain results where "seqeval_compute tps tls = Inr results"
      using seqeval_compute_returns by blast
    then show ?thesis by (simp add: 5)
  qed
  have 7: "compute_metrics seqeval_compute all_labels (predictions, labels) = Inl ZeroDivisionError"
    if "concat tls = []"
    using seqeval_compute_raises [OF that, of tps] by (simp add: 5)
  from tps tls 3 4 5 6 7
  have "\<exists>tps tls.
             true_predictions all_labels ids labels = Inr tps
           \<and> true_labels all_labels ids labels = Inr tls
           \<and> tps ! b = [] \<and> tls ! b = []
           \<and> compute_metrics ev all_labels (predictions, labels) =
               (case ev tps tls of
                  Inl e \<Rightarrow> Inl e
                | Inr results \<Rightarrow>
                    Inr \<lparr>precision = overall_precision results, recall = overall_recall results,
                         f1 = overall_f1 results, accuracy = overall_accuracy results\<rparr>)
           \<and> (concat tls \<noteq> [] \<longrightarrow>
                (\<exists>m. compute_metrics seqeval_compute all_labels (predictions, labels) = Inr m))
           \<and> (concat tls = [] \<longrightarrow>
                compute_metrics seqeval_compute all_labels (predictions, labels) =
                Inl ZeroDivisionError)"
    by (intro exI [of _ tps] exI [of _ tls] conjI impI)
  with 1 2 show ?thesis by (intro conjI)
qed

theorem C4_witness:
  "argmax_axis2 [[[2, 1], [0, 5]], [[1, 0], [3, 0 :: int]]] = Inr [[0, 1], [0, 0]]
   \<and> true_predictions_row [''O'', ''B-PER''] [0, 0] [- 100, - 100] = Inr []
   \<and> true_labels_row [''O'', ''B-PER''] [0, 0] [- 100, - 100] = Inr []
   \<and> true_predictions [''O'', ''B-PER''] [[0, 1], [0, 0]] [[0, 1], [- 100, - 100]]
       = Inr [[''O'', ''B-PER''], []]
   \<and> true_labels [''O'', ''B-PER''] [[0, 1], [0, 0]] [[0, 1], [- 100, - 100]]
       = Inr [[''O'', ''B-PER''], []]
   \<and> compute_metrics seqeval_compute [''O'', ''B-PER'']
        ([[[2, 1], [0, 5]], [[1, 0], [3, 0 :: int]]], [[0, 1], [- 100, - 100]]) =
      Inr \<lparr>precision = Some 1, recall = Some 1, f1 = Some 1, accuracy = Some 1\<rparr>"
proof -
  have a: "argmax_axis2 [[[2, 1], [0, 5]], [[1, 0], [3, 0 :: int]]] = Inr [[0, 1], [0, 0]]"
    by code_simp
  have b: "(1::nat) < min (length [[0, 1], [0, 0 :: int]]) (length [[0, 1], [- 100, - 100 :: int]])"
    by simp
  have c: "\<forall>l\<in>set ([[0, 1], [- 100, - 100 :: int]] ! 1). l = - 100"
    by simp
  have d: "\<forall>b'<min (length [[0, 1], [0, 0 :: int]]) (length [[0, 1], [- 100, - 100 :: int]]). b' \<noteq> 1 \<longrightarrow>
           (\<forall>i<min (length ([[0, 1], [0, 0 :: int]] ! b')) (length ([[0, 1], [- 100, - 100 :: int]] ! b')).
              [[0, 1], [- 100, - 100 :: int]] ! b' ! i \<noteq> - 100 \<longrightarrow>
              in_index_range [''O'', ''B-PER''] ([[0, 1], [0, 0]] ! b' ! i)
              \<and> in_index_range [''O'', ''B-PER''] ([[0, 1], [- 100, - 100]] ! b' ! i))"
    by (auto simp: in_index_range_def less_Suc_eq numeral_2_eq_2)
  have e: "true_predictions [''O'', ''B-PER''] [[0, 1], [0, 0]] [[0, 1], [- 100, - 100]]
       = Inr [[''O'', ''B-PER''], []]"
    by code_simp
  have f: "true_labels [''O'', ''B-PER''] [[0, 1], [0, 0]] [[0, 1], [- 100, - 100]]
       = Inr [[''O'', ''B-PER''], []]"
    by code_simp
  have g: "compute_metrics seqeval_compute [''O'', ''B-PER'']
        ([[[2, 1], [0, 5]], [[1, 0], [3, 0 :: int]]], [[0, 1], [- 100, - 100]]) =
      Inr \<lparr>precision = Some 1, recall = Some 1, f1 = Some 1, accuracy = Some 1\<rparr>"
    by code_simp
  from C4_all_masked_example_decodes_to_empty [OF a b c d, where ev = seqeval_compute]
  have "true_predictions_row [''O'', ''B-PER''] [0, 0] [- 100, - 100] = Inr []
      \<and> true_labels_row [''O'', ''B-PER''] [0, 0] [- 100, - 100] = Inr []"
    by simp
  with a e f g show ?thesis by simp
qed

text \<open>
  C4, as stated, fails. In a batch of one example whose reference ids are all \<open>-100\<close>
  both decoded sequences are empty and decoding raises nothing, but the evaluator is
  handed a batch without any tag: its accuracy divides by zero and \<^verbatim>\<open>compute_metrics\<close>
  raises.
\<close>

theorem C4_counterexample:
  "argmax_axis2 [[[1, 0], [0, 1 :: int]]] = Inr [[0, 1]]
   \<and> true_predictions [''O'', ''B-PER''] [[0, 1]] [[- 100, - 100]] = Inr [[]]
   \<and> true_labels [''O'', ''B-PER''] [[0, 1]] [[- 100, - 100]] = Inr [[]]
   \<and> compute_metrics seqeval_compute [''O'', ''B-PER'']
        ([[[1, 0], [0, 1 :: int]]], [[- 100, - 100]]) = Inl ZeroDivisionError"
proof -
  have 1: "argmax_axis2 [[[1, 0], [0, 1 :: int]]] = Inr [[0, 1]]"
    by code_simp
  have 2: "true_predictions [''O'', ''B-PER''] [[0, 1]] [[- 100, - 100]] = Inr [[]]"
    by code_simp
  have 3: "true_labels [''O'', ''B-PER''] [[0, 1]] [[- 100, - 100]] = Inr [[]]"
    by code_simp
  have 4: "compute_metrics seqeval_compute [''O'', ''B-PER'']
        ([[[1, 0], [0, 1 :: int]]], [[- 100, - 100]]) = Inl ZeroDivisionError"
    by code_simp
  from 1 2 3 4 show ?thesis by (intro conjI)
qed



section \<open>Ids outside the vocabulary\<close>

lemma map_result_Inl:
  "map_result f xs = Inl e \<Longrightarrow> \<exists>x\<in>set xs. f x = Inl e"
proof (induction xs)
  case Nil
  then show ?case by simp
next
  case (Cons a xs)
  show ?case
  proof (cases "f a")
    case (Inl e')
    with Cons.prems show ?thesis by simp
  next
    case (Inr y)
    with Cons.prems have "map_result f xs = Inl e" by (simp split: sum.splits)
    then have "\<exists>x\<in>set xs. f x = Inl e" by (rule Cons.IH)
    then show ?thesis by auto
  qed
qed

lemma true_predictions_row_error:
  "true_predictions_row all_labels prediction label = Inl e \<Longrightarrow> e = IndexError"
  unfolding true_predictions_row_def by (drule map_result_Inl) (auto dest: getitem_error)

lemma true_labels_row_error:
  "true_labels_row all_labels prediction label = Inl e \<Longrightarrow> e = IndexError"
  unfolding true_labels_row_def by (drule map_result_Inl) (auto dest: getitem_error)

lemma true_predictions_error:
  "true_predictions all_labels predictions labels = Inl e \<Longrightarrow> e = IndexError"
  unfolding true_predictions_def by (drule map_result_Inl) (auto dest: true_predictions_row_error)

lemma true_labels_error:
  "true_labels all_labels predictions labels = Inl e \<Longrightarrow> e = IndexError"
  unfolding true_labels_def by (drule map_result_Inl) (auto dest: true_labels_row_error)

lemma true_predictions_row_fails:
  assumes "(p, l) \<in> set (zip prediction label)" and "l \<noteq> - 100"
    and "\<not> in_index_range all_labels p"
  shows "true_predictions_row all_labels prediction label = Inl IndexError"
  unfolding true_predictions_row_def
proof (rule map_result_fails [where x = "(p, l)"])
  show "(p, l) \<in> set (filter (\<lambda>(p, l). l \<noteq> - 100) (zip prediction label))"
    using assms(1,2) by simp
  show "(case (p, l) of (p, l) \<Rightarrow> getitem all_labels p) = Inl IndexError"
    using assms(3) by (simp add: getitem_out_of_range)
  show "e' = IndexError" if "(case z of (p, l) \<Rightarrow> getitem all_labels p) = Inl e'" for z e'
    using that by (cases z) (auto dest: getitem_error)
qed

lemma true_labels_row_fails:
  assumes "(p, l) \<in> set (zip prediction label)" and "l \<noteq> - 100"
    and "\<not> in_index_range all_labels l"
  shows "true_labels_row all_labels prediction label = Inl IndexError"
  unfolding true_labels_row_def
proof (rule map_result_fails [where x = "(p, l)"])
  show "(p, l) \<in> set (filter (\<lambda>(p, l). l \<noteq> - 100) (zip prediction label))"
    using assms(1,2) by simp
  show "(case (p, l) of (p, l) \<Rightarrow> getitem all_labels l) = Inl IndexError"
    using assms(3) by (simp add: getitem_out_of_range)
  show "e' = IndexError" if "(case z of (p, l) \<Rightarrow> getitem all_labels l) = Inl e'" for z e'
    using that by (cases z) (auto dest: getitem_error)
qed

lemma true_predictions_fails:
  assumes "(prediction, label) \<in> set (zip predictions labels)"
    and "true_predictions_row all_labels prediction label = Inl IndexError"
  shows "true_predictions all_labels predictions labels = Inl IndexError"
  unfolding true_predictions_def
proof (rule map_result_fails [where x = "(prediction, label)"])
  show "(prediction, label) \<in> set (zip predictions labels)" by (rule assms(1))
  show "(case (prediction, label) of (prediction, label) \<Rightarrow>
      true_predictions_row all_labels prediction label) = Inl IndexError"
    using assms(2) by simp
  show "e' = IndexError"
    if "(case z of (prediction, label) \<Rightarrow> true_predictions_row all_labels prediction label) = Inl e'"
    for z e'
    using that by (cases z) (auto dest: true_predictions_row_error)
qed

lemma true_labels_fails:
  assumes "(prediction, label) \<in> set (zip predictions labels)"
    and "true_labels_row all_labels prediction label = Inl IndexError"
  shows "true_labels all_labels predictions labels = Inl IndexError"
  unfolding true_labels_def
proof (rule map_result_fails [where x = "(prediction, label)"])
  show "(prediction, label) \<in> set (zip predictions labels)" by (rule assms(1))
  show "(case (prediction, label) of (prediction, label) \<Rightarrow>
      true_labels_row all_labels prediction label) = Inl IndexError"
    using assms(2) by simp
  show "e' = IndexError"
    if "(case z of (prediction, label) \<Rightarrow> true_labels_row all_labels prediction label) = Inl e'"
    for z e'
    using that by (cases z) (auto dest: true_labels_row_error)
qed

text \<open>
  C5, as the code has it. When the argmax stage has produced the predicted ids and some
  kept position (one that \<open>zip\<close> pairs and whose reference id is not \<open>-100\<close>) holds a
  predicted id or a reference id outside \<open>-n..n-1\<close>, \<open>n\<close> the size of the vocabulary,
  \<^verbatim>\<open>compute_metrics\<close> fails with \<open>IndexError\<close> and the evaluator is never called.
\<close>

theorem C5_id_beyond_index_range_is_fatal:
  assumes "argmax_axis2 predictions = Inr ids"
    and "(prediction, label) \<in> set (zip ids labels)"
    and "(p, l) \<in> set (zip prediction label)"
    and "l \<noteq> - 100"
    and "\<not> in_index_range all_labels p \<or> \<not> in_index_range all_labels l"
  shows "compute_metrics ev all_labels (predictions, labels) = Inl IndexError"
proof (cases "true_predictions all_labels ids labels")
  case (Inl e)
  then have "e = IndexError" by (rule true_predictions_error)
  with Inl assms(1) show ?thesis by (simp add: compute_metrics_def)
next
  case (Inr tps)
  have "in_index_range all_labels p"
  proof (rule ccontr)
    assume "\<not> in_index_range all_labels p"
    then have "true_predictions_row all_labels prediction label = Inl IndexError"
      by (rule true_predictions_row_fails [OF assms(3,4)])
    then have "true_predictions all_labels ids labels = Inl IndexError"
      by (rule true_predictions_fails [OF assms(2)])
    with Inr show False by simp
  qed
  with assms(5) have "\<not> in_index_range all_labels l" by simp
  then have "true_labels_row all_labels prediction label = Inl IndexError"
    by (rule true_labels_row_fails [OF assms(3,4)])
  then have "true_labels all_labels ids labels = Inl IndexError"
    by (rule true_labels_fails [OF assms(2)])
  with Inr assms(1) show ?thesis by (simp add: compute_metrics_def)
qed

theorem C5_witness:
  "argmax_axis2 [[[1, 0, 3 :: int]]] = Inr [[2]]
   \<and> \<not> in_index_range [''O'', ''B-PER''] 2
   \<and> compute_metrics seqeval_compute [''O'', ''B-PER''] ([[[1, 0, 3 :: int]]], [[0]]) = Inl IndexError"
proof -
  have a: "argmax_axis2 [[[1, 0, 3 :: int]]] = Inr [[2]]"
    by code_simp
  have b: "([2], [0]) \<in> set (zip [[2 :: int]] [[0 :: int]])"
    by simp
  have c: "(2, 0) \<in> set (zip [2 :: int] [0 :: int])"
    by simp
  have d: "(0 :: int) \<noteq> - 100"
    by simp
  have e: "\<not> in_index_range [''O'', ''B-PER''] 2"
    by (simp add: in_index_range_def)
  then have f: "\<not> in_index_range [''O'', ''B-PER''] 2 \<or> \<not> in_index_range [''O'', ''B-PER''] 0"
    by simp
  from C5_id_beyond_index_range_is_fatal [OF a b c d f, of seqeval_compute] a e
  show ?thesis by simp
qed

text \<open>
  C5, as stated, fails. With the vocabulary \<open>[O, B-PER]\<close> the reference id \<open>-1\<close> is not in
  \<open>0..1\<close>, yet at a kept position it is decoded to the last tag; and the predicted id
  \<open>2\<close> at a dropped position is never decoded. Nothing is raised.
\<close>

theorem C5_counterexample:
  "argmax_axis2 [[[1, 0, 0], [0, 0, 5 :: int]]] = Inr [[0, 2]]
   \<and> \<not> (0 \<le> (- 1 :: int) \<and> (- 1 :: int) < int (length [''O'', ''B-PER'']))
   \<and> \<not> (0 \<le> (2 :: int) \<and> (2 :: int) < int (length [''O'', ''B-PER'']))
   \<and> true_predictions [''O'', ''B-PER''] [[0, 2]] [[- 1, - 100]] = Inr [[''O'']]
   \<and> true_labels [''O'', ''B-PER''] [[0, 2]] [[- 1, - 100]] = Inr [[''B-PER'']]
   \<and> compute_metrics seqeval_compute [''O'', ''B-PER'']
         ([[[1, 0, 0], [0, 0, 5 :: int]]], [[- 1, - 100]]) \<noteq> Inl IndexError"
proof -
  have 1: "argmax_axis2 [[[1, 0, 0], [0, 0, 5 :: int]]] = Inr [[0, 2]]"
    by code_simp
  have 2: "true_predictions [''O'', ''B-PER''] [[0, 2]] [[- 1, - 100]] = Inr [[''O'']]"
    by code_simp
  have 3: "true_labels [''O'', ''B-PER''] [[0, 2]] [[- 1, - 100]] = Inr [[''B-PER'']]"
    by code_simp
  have 4: "compute_metrics seqeval_compute [''O'', ''B-PER'']
         ([[[1, 0, 0], [0, 0, 5 :: int]]], [[- 1, - 100]]) \<noteq> Inl IndexError"
    by code_simp
  from 1 2 3 4 show ?thesis by simp
qed

section \<open>The argmax stage\<close>

lemma argmax_from_first_max:
  assumes "i = length pre" and "best < i" and "bv = pre ! best"
    and "\<forall>j<i. pre ! j \<le> bv" and "\<forall>j<best. pre ! j < bv"
  shows "argmax_from best bv i xs < length (pre @ xs)
       \<and> (\<forall>j<length (pre @ xs). (pre @ xs) ! j \<le> (pre @ xs) ! argmax_from best bv i xs)
       \<and> (\<forall>j<argmax_from best bv i xs. (pre @ xs) ! j < (pre @ xs) ! argmax_from best bv i xs)"
  using assms
proof (induction xs arbitrary: pre best bv i)
  case Nil
  then show ?case by simp
next
  case (Cons x xs)
  show ?case
  proof (cases "bv < x")
    case True
    have "argmax_from i x (Suc i) xs < length ((pre @ [x]) @ xs)
       \<and> (\<forall>j<length ((pre @ [x]) @ xs). ((pre @ [x]) @ xs) ! j \<le> ((pre @ [x]) @ xs) ! argmax_from i x (Suc i) xs)
       \<and> (\<forall>j<argmax_from i x (Suc i) xs. ((pre @ [x]) @ xs) ! j < ((pre @ [x]) @ xs) ! argmax_from i x (Suc i) xs)"
    proof (rule Cons.IH)
      show "Suc i = length (pre @ [x])" using Cons.prems(1) by simp
      show "i < Suc i" by simp
      show "x = (pre @ [x]) ! i" using Cons.prems(1) by simp
      show "\<forall>j<Suc i. (pre @ [x]) ! j \<le> x"
        using Cons.prems(1,4) True by (auto simp: nth_append less_Suc_eq)
      show "\<forall>j<i. (pre @ [x]) ! j < x"
        using Cons.prems(1,4) True by (auto simp: nth_append)
    qed
    with True show ?thesis by simp
  next
    case False
    have "argmax_from best bv (Suc i) xs < length ((pre @ [x]) @ xs)
       \<and> (\<forall>j<length ((pre @ [x]) @ xs). ((pre @ [x]) @ xs) ! j \<le> ((pre @ [x]) @ xs) ! argmax_from best bv (Suc i) xs)
       \<and> (\<forall>j<argmax_from best bv (Suc i) xs. ((pre @ [x]) @ xs) ! j < ((pre @ [x]) @ xs) ! argmax_from best bv (Suc i) xs)"
    proof (rule Cons.IH)
      show "Suc i = length (pre @ [x])" using Cons.prems(1) by simp
      show "best < Suc i" using Cons.prems(2) by simp
      show "bv = (pre @ [x]) ! best" using Cons.prems(1,2,3) by (simp add: nth_append)
      show "\<forall>j<Suc i. (pre @ [x]) ! j \<le> bv"
        using Cons.prems(1,4) False by (auto simp: nth_append less_Suc_eq)
      show "\<forall>j<best. (pre @ [x]) ! j < bv"
        using Cons.prems(1,2,5) by (auto simp: nth_append)
    qed
    with False show ?thesis by simp
  qed
qed

lemma argmax_is_first_max: "argmax v = Inr k \<Longrightarrow> is_first_max v k"
proof (cases v)
  case Nil
  assume "argmax v = Inr k"
  with Nil show ?thesis by (simp add: argmax_def)
next
  case (Cons x xs)
  assume "argmax v = Inr k"
  with Cons have k: "k = int (argmax_from 0 x 1 xs)" by (simp add: argmax_def)
  have "argmax_from 0 x 1 xs < length ([x] @ xs)
       \<and> (\<forall>j<length ([x] @ xs). ([x] @ xs) ! j \<le> ([x] @ xs) ! argmax_from 0 x 1 xs)
       \<and> (\<forall>j<argmax_from 0 x 1 xs. ([x] @ xs) ! j < ([x] @ xs) ! argmax_from 0 x 1 xs)"
    by (rule argmax_from_first_max) simp_all
  with k Cons show ?thesis by (simp add: is_first_max_def)
qed

lemma argmax_nonempty: "v \<noteq> [] \<Longrightarrow> \<exists>k. argmax v = Inr k"
  by (cases v) (simp_all add: argmax_def)

lemma argmax_axis2_Inr:
  "argmax_axis2 predictions = Inr ids \<Longrightarrow>
   is_array3 predictions \<and> map_result (map_result argmax) predictions = Inr ids"
  by (simp add: argmax_axis2_def split: if_splits)

lemma argmax_axis2_nth:
  assumes "argmax_axis2 predictions = Inr ids" and "b < length predictions"
  shows "map_result argmax (predictions ! b) = Inr (ids ! b)"
proof -
  from assms(1) have "map_result (map_result argmax) predictions = Inr ids"
    by (simp add: argmax_axis2_Inr)
  then show ?thesis using assms(2) by (rule map_result_nth)
qed

lemma compute_metrics_argmax:
  "argmax_axis2 predictions = Inr ids \<Longrightarrow> argmax_axis2 predictions2 = Inr ids \<Longrightarrow>
   compute_metrics ev all_labels (predictions2, labels) = compute_metrics ev all_labels (predictions, labels)"
  by (simp add: compute_metrics_def)

lemma argmax_axis2_total:
  assumes "is_array3 predictions" and "\<forall>row\<in>set predictions. \<forall>v\<in>set row. v \<noteq> []"
  shows "\<exists>ids. argmax_axis2 predictions = Inr ids"
proof -
  have "\<exists>ids. map_result (map_result argmax) predictions = Inr ids"
  proof (rule map_result_total)
    fix row assume "row \<in> set predictions"
    with assms(2) have "\<forall>v\<in>set row. v \<noteq> []" by blast
    then show "\<exists>y. map_result argmax row = Inr y"
      by (intro map_result_total argmax_nonempty) blast
  qed
  with assms(1) show ?thesis by (simp add: argmax_axis2_def)
qed

text \<open>
  C6. Whenever the argmax stage returns, it returns one id for every token position of
  every example, and that id is the argmax of the score vector at the position: an index
  into the vector (the last axis) holding a maximal score, the first such index. These
  ids are what \<^verbatim>\<open>compute_metrics\<close> decodes and hands the evaluator: its result is the
  evaluator's result on the decoded ids and the decoded reference ids, and an evaluator
  that returns its first argument shows that argument to be, for every example, the tags
  of the argmax ids at the kept positions. Two tensors with the same argmax ids give the
  same result.
\<close>

theorem C6_predicted_id_is_argmax:
  assumes "argmax_axis2 (predictions :: 'a::linorder list list list) = Inr ids"
  shows "length ids = length predictions
       \<and> (\<forall>b<length predictions. length (ids ! b) = length (predictions ! b)
            \<and> (\<forall>t<length (predictions ! b). is_first_max (predictions ! b ! t) (ids ! b ! t)))
       \<and> compute_metrics ev all_labels (predictions, labels) =
           (case true_predictions all_labels ids labels of
              Inl e \<Rightarrow> Inl e
            | Inr tps \<Rightarrow>
           (case true_labels all_labels ids labels of
              Inl e \<Rightarrow> Inl e
            | Inr tls \<Rightarrow>
           (case ev tps tls of
              Inl e \<Rightarrow> Inl e
            | Inr results \<Rightarrow>
                Inr \<lparr>precision = overall_precision results, recall = overall_recall results,
                     f1 = overall_f1 results, accuracy = overall_accuracy results\<rparr>)))
       \<and> (\<forall>m. compute_metrics
                 (\<lambda>tps tls. Inr \<lparr>overall_precision = tps, overall_recall = tls,
                                 overall_f1 = tps, overall_accuracy = tls\<rparr>)
                 all_labels (predictions, labels) = Inr m \<longrightarrow>
              (\<forall>b<min (length ids) (length labels).
                 map Inr (precision m ! b) =
                 map (\<lambda>t. getitem all_labels (ids ! b ! t)) (kept_positions (ids ! b) (labels ! b))))
       \<and> (\<forall>predictions2 :: 'a::linorder list list list. argmax_axis2 predictions2 = Inr ids \<longrightarrow>
            compute_metrics ev all_labels (predictions2, labels) =
            compute_metrics ev all_labels (predictions, labels))"
proof -
  have 1: "length ids = length predictions"
  proof -
    from assms have "map_result (map_result argmax) predictions = Inr ids"
      by (simp add: argmax_axis2_Inr)
    then show ?thesis by (rule map_result_length)
  qed
  have 2: "\<forall>b<length predictions. length (ids ! b) = length (predictions ! b)
      \<and> (\<forall>t<length (predictions ! b). is_first_max (predictions ! b ! t) (ids ! b ! t))"
  proof (intro allI impI)
    fix b assume b: "b < length predictions"
    have row: "map_result argmax (predictions ! b) = Inr (ids ! b)"
      by (rule argmax_axis2_nth [OF assms b])
    then have "length (ids ! b) = length (predictions ! b)"
      by (rule map_result_length)
    moreover have "is_first_max (predictions ! b ! t) (ids ! b ! t)"
      if "t < length (predictions ! b)" for t
      by (rule argmax_is_first_max) (rule map_result_nth [OF row that])
    ultimately show "length (ids ! b) = length (predictions ! b)
      \<and> (\<forall>t<length (predictions ! b). is_first_max (predictions ! b ! t) (ids ! b ! t))"
      by simp
  qed
  have 3: "compute_metrics ev all_labels (predictions, labels) =
           (case true_predictions all_labels ids labels of
              Inl e \<Rightarrow> Inl e
            | Inr tps \<Rightarrow>
           (case true_labels all_labels ids labels of
              Inl e \<Rightarrow> Inl e
            | Inr tls \<Rightarrow>
           (case ev tps tls of
              Inl e \<Rightarrow> Inl e
            | Inr results \<Rightarrow>
                Inr \<lparr>precision = overall_precision results, recall = overall_recall results,
                     f1 = overall_f1 results, accuracy = overall_accuracy results\<rparr>)))"
    by (simp add: compute_metrics_def assms)
  have 4: "\<forall>m. compute_metrics
                 (\<lambda>tps tls. Inr \<lparr>overall_precision = tps, overall_recall = tls,
                                 overall_f1 = tps, overall_accuracy = tls\<rparr>)
                 all_labels (predictions, labels) = Inr m \<longrightarrow>
              (\<forall>b<min (length ids) (length labels).
                 map Inr (precision m ! b) =
                 map (\<lambda>t. getitem all_labels (ids ! b ! t)) (kept_positions (ids ! b) (labels ! b)))"
  proof (intro allI impI)
    fix m b
    assume m: "compute_metrics
                 (\<lambda>tps tls. Inr \<lparr>overall_precision = tps, overall_recall = tls,
                                 overall_f1 = tps, overall_accuracy = tls\<rparr>)
                 all_labels (predictions, labels) = Inr m"
      and b: "b < min (length ids) (length labels)"
    from m obtain tps where tps: "true_predictions all_labels ids labels = Inr tps"
      and p: "precision m = tps"
      by (auto simp: compute_metrics_def assms split: sum.splits)
    have "true_predictions_row all_labels (ids ! b) (labels ! b) = Inr (tps ! b)"
      by (rule true_predictions_nth [OF tps b])
    then have "map Inr (tps ! b) =
        map (\<lambda>t. getitem all_labels (ids ! b ! t)) (kept_positions (ids ! b) (labels ! b))"
      by (rule true_predictions_row_Inr)
    with p show "map Inr (precision m ! b) =
        map (\<lambda>t. getitem all_labels (ids ! b ! t)) (kept_positions (ids ! b) (labels ! b))"
      by simp
  qed
  have 5: "\<forall>predictions2 :: 'a list list list. argmax_axis2 predictions2 = Inr ids \<longrightarrow>
            compute_metrics ev all_labels (predictions2, labels) =
            compute_metrics ev all_labels (predictions, labels)"
    by (intro allI impI) (rule compute_metrics_argmax [OF assms])
  from 1 2 3 4 5 show ?thesis by (intro conjI)
qed

theorem C6_witness:
  "argmax_axis2 [[[2, 1], [0, 5], [3, 3 :: int]]] = Inr [[0, 1, 0]]
   \<and> is_first_max [2, 1 :: int] 0
   \<and> is_first_max [0, 5 :: int] 1
   \<and> is_first_max [3, 3 :: int] 0
   \<and> compute_metrics
        (\<lambda>tps tls. Inr \<lparr>overall_precision = tps, overall_recall = tls,
                        overall_f1 = tps, overall_accuracy = tls\<rparr>)
        [''O'', ''B-PER''] ([[[2, 1], [0, 5], [3, 3 :: int]]], [[1, 1, - 100]]) =
      Inr \<lparr>precision = [[''O'', ''B-PER'']], recall = [[''B-PER'', ''B-PER'']],
           f1 = [[''O'', ''B-PER'']], accuracy = [[''B-PER'', ''B-PER'']]\<rparr>"
proof -
  have a: "argmax_axis2 [[[2, 1], [0, 5], [3, 3 :: int]]] = Inr [[0, 1, 0]]"
    by code_simp
  note c6 = C6_predicted_id_is_argmax [OF a,
      where ev = "\<lambda>tps tls. Inr \<lparr>overall_precision = tps, overall_recall = tls,
                        overall_f1 = tps, overall_accuracy = tls\<rparr>"
        and all_labels = "[''O'', ''B-PER'']" and labels = "[[1, 1, - 100]]"]
  from c6
  have "\<forall>t<length ([[[2, 1], [0, 5], [3, 3 :: int]]] ! 0).
      is_first_max ([[[2, 1], [0, 5], [3, 3 :: int]]] ! 0 ! t) ([[0, 1, 0]] ! 0 ! t)"
    by simp
  then have h: "\<forall>t<3. is_first_max ([[2, 1], [0, 5], [3, 3 :: int]] ! t) ([0, 1, 0] ! t)"
    by simp
  from h [rule_format, of 0] h [rule_format, of 1] h [rule_format, of 2]
  have i: "is_first_max ([[2, 1], [0, 5], [3, 3 :: int]] ! 0) ([0, 1, 0] ! 0)
      \<and> is_first_max ([[2, 1], [0, 5], [3, 3 :: int]] ! 1) ([0, 1, 0] ! 1)
      \<and> is_first_max ([[2, 1], [0, 5], [3, 3 :: int]] ! 2) ([0, 1, 0] ! 2)"
    by simp
  have d: "true_predictions [''O'', ''B-PER''] [[0, 1, 0]] [[1, 1, - 100]] = Inr [[''O'', ''B-PER'']]"
    by code_simp
  have e: "true_labels [''O'', ''B-PER''] [[0, 1, 0]] [[1, 1, - 100]] = Inr [[''B-PER'', ''B-PER'']]"
    by code_simp
  from c6 have "compute_metrics
        (\<lambda>tps tls. Inr \<lparr>overall_precision = tps, overall_recall = tls,
                        overall_f1 = tps, overall_accuracy = tls\<rparr>)
        [''O'', ''B-PER''] ([[[2, 1], [0, 5], [3, 3 :: int]]], [[1, 1, - 100]]) =
      Inr \<lparr>precision = [[''O'', ''B-PER'']], recall = [[''B-PER'', ''B-PER'']],
           f1 = [[''O'', ''B-PER'']], accuracy = [[''B-PER'', ''B-PER'']]\<rparr>"
    by (simp add: d e)
  with a i show ?thesis by simp
qed

section \<open>The returned statistics\<close>

text \<open>
  C3. The scenario of the specification: labels \<open>[[0, -100, 1]]\<close>, a prediction tensor
  whose argmax ids are \<open>[[0, x, 1]]\<close> for any \<open>x\<close>, and the vocabulary \<open>[O, B-PER]\<close>. Both
  decoded sequences are \<open>[O, B-PER]\<close>; they are what \<^verbatim>\<open>compute_metrics\<close> hands the
  evaluator, whichever evaluator it is; and with the evaluator of the specification
  \<^verbatim>\<open>compute_metrics\<close> returns accuracy 1 (and precision, recall and F1 of 1).
\<close>

theorem C3_scenario:
  assumes "argmax_axis2 predictions = Inr [[0, x, 1]]"
  shows "true_predictions [''O'', ''B-PER''] [[0, x, 1]] [[0, - 100, 1]] = Inr [[''O'', ''B-PER'']]
       \<and> true_labels [''O'', ''B-PER''] [[0, x, 1]] [[0, - 100, 1]] = Inr [[''O'', ''B-PER'']]
       \<and> compute_metrics ev [''O'', ''B-PER''] (predictions, [[0, - 100, 1]]) =
           (case ev [[''O'', ''B-PER'']] [[''O'', ''B-PER'']] of
              Inl e \<Rightarrow> Inl e
            | Inr results \<Rightarrow>
                Inr \<lparr>precision = overall_precision results, recall = overall_recall results,
                     f1 = overall_f1 results, accuracy = overall_accuracy results\<rparr>)
       \<and> compute_metrics seqeval_compute [''O'', ''B-PER''] (predictions, [[0, - 100, 1]]) =
           Inr \<lparr>precision = Some 1, recall = Some 1, f1 = Some 1, accuracy = Some 1\<rparr>"
proof -
  have 1: "true_predictions [''O'', ''B-PER''] [[0, x, 1]] [[0, - 100, 1]] = Inr [[''O'', ''B-PER'']]"
    by (simp add: true_predictions_def true_predictions_row_def getitem_def)
  have 2: "true_labels [''O'', ''B-PER''] [[0, x, 1]] [[0, - 100, 1]] = Inr [[''O'', ''B-PER'']]"
    by (simp add: true_labels_def true_labels_row_def getitem_def)
  have 3: "compute_metrics ev [''O'', ''B-PER''] (predictions, [[0, - 100, 1]]) =
           (case ev [[''O'', ''B-PER'']] [[''O'', ''B-PER'']] of
              Inl e \<Rightarrow> Inl e
            | Inr results \<Rightarrow>
                Inr \<lparr>precision = overall_precision results, recall = overall_recall results,
                     f1 = overall_f1 results, accuracy = overall_accuracy results\<rparr>)"
    for ev :: "string list list \<Rightarrow> string list list \<Rightarrow> error + 'v seqeval_results"
    by (rule compute_metrics_decoded [OF assms 1 2])
  have s: "seqeval_compute [[''O'', ''B-PER'']] [[''O'', ''B-PER'']] =
      Inr \<lparr>overall_precision = Some 1, overall_recall = Some 1, overall_f1 = Some 1,
           overall_accuracy = Some 1\<rparr>"
    by code_simp
  have 4: "compute_metrics seqeval_compute [''O'', ''B-PER''] (predictions, [[0, - 100, 1]]) =
           Inr \<lparr>precision = Some 1, recall = Some 1, f1 = Some 1, accuracy = Some 1\<rparr>"
    by (simp add: 3 s)
  from 1 2 3 4 show ?thesis by (intro conjI)
qed

theorem C3_witness:
  "argmax_axis2 [[[2, 1, 0], [0, 0, 5], [1, 3, 0 :: int]]] = Inr [[0, 2, 1]]
   \<and> true_predictions [''O'', ''B-PER''] [[0, 2, 1]] [[0, - 100, 1]] = Inr [[''O'', ''B-PER'']]
   \<and> true_labels [''O'', ''B-PER''] [[0, 2, 1]] [[0, - 100, 1]] = Inr [[''O'', ''B-PER'']]
   \<and> compute_metrics seqeval_compute [''O'', ''B-PER'']
        ([[[2, 1, 0], [0, 0, 5], [1, 3, 0 :: int]]], [[0, - 100, 1]]) =
      Inr \<lparr>precision = Some 1, recall = Some 1, f1 = Some 1, accuracy = Some 1\<rparr>"
proof -
  have a: "argmax_axis2 [[[2, 1, 0], [0, 0, 5], [1, 3, 0 :: int]]] = Inr [[0, 2, 1]]"
    by code_simp
  from C3_scenario [OF a, where ev = seqeval_compute] a show ?thesis by blast
qed

subsection \<open>Predictions that match the reference\<close>

lemma matching_rows_decode_alike:
  assumes "\<forall>(p, l)\<in>set (zip prediction label). l \<noteq> - 100 \<longrightarrow> p = l"
  shows "true_predictions_row all_labels prediction label = true_labels_row all_labels prediction label"
  unfolding true_predictions_row_def true_labels_row_def
  by (rule map_result_cong) (use assms in auto)

lemma matching_batches_decode_alike:
  assumes "\<forall>(prediction, label)\<in>set (zip predictions labels).
      \<forall>(p, l)\<in>set (zip prediction label). l \<noteq> - 100 \<longrightarrow> p = l"
  shows "true_predictions all_labels predictions labels = true_labels all_labels predictions labels"
  unfolding true_predictions_def true_labels_def
proof (rule map_result_cong)
  fix z assume z: "z \<in> set (zip predictions labels)"
  obtain prediction label where pl: "z = (prediction, label)" by (cases z)
  from bspec [OF assms z]
  have "\<forall>(p, l)\<in>set (zip prediction label). l \<noteq> - 100 \<longrightarrow> p = l"
    unfolding pl by (simp only: prod.case)
  then have "true_predictions_row all_labels prediction label = true_labels_row all_labels prediction label"
    by (rule matching_rows_decode_alike)
  with pl show "(case z of (prediction, label) \<Rightarrow> true_predictions_row all_labels prediction label) =
      (case z of (prediction, label) \<Rightarrow> true_labels_row all_labels prediction label)"
    by simp
qed

lemma correct_spans_same: "correct_spans seqs seqs = length (spans seqs)"
  unfolding correct_spans_def by simp

lemma ratio_same: "0 < n \<Longrightarrow> ratio n n = Some 1"
  by (simp add: ratio_def)

lemma harmonic_mean_ones: "harmonic_mean (Some 1) (Some 1) = Some 1"
  by (simp add: harmonic_mean_def)

lemma equal_tags_same:
  "filter (\<lambda>(p, t). p = t) (zip xs xs) = zip xs xs"
  by (rule filter_True) (auto simp: zip_same)

lemma raw_tag_accuracy_same: "concat seqs \<noteq> [] \<Longrightarrow> raw_tag_accuracy seqs seqs = Some 1"
  unfolding raw_tag_accuracy_def by (simp add: equal_tags_same ratio_same)

lemma spans_empty: "concat seqs = [] \<Longrightarrow> spans seqs = []"
proof -
  assume "concat seqs = []"
  then have e: "\<forall>ts\<in>set seqs. ts = []" by simp
  have "spans_from 0 None ts = []" if "(b, ts) \<in> set (zip [0..<length seqs] seqs)" for b ts
  proof -
    from that have "ts \<in> set seqs" by (rule set_zip_rightD)
    with e have "ts = []" by blast
    then show ?thesis by (simp add: close_span_def)
  qed
  then show ?thesis unfolding spans_def by auto
qed

lemma seqeval_compute_same:
  assumes "spans seqs \<noteq> []"
  shows "seqeval_compute seqs seqs =
     Inr \<lparr>overall_precision = Some 1, overall_recall = Some 1, overall_f1 = Some 1,
          overall_accuracy = Some 1\<rparr>"
proof -
  from assms have n: "0 < length (spans seqs)" by simp
  from assms have "concat seqs \<noteq> []" using spans_empty by blast
  then have a: "raw_tag_accuracy seqs seqs = Some 1" by (rule raw_tag_accuracy_same)
  show ?thesis
    unfolding seqeval_compute_def Let_def correct_spans_same
    by (simp add: ratio_same [OF n] harmonic_mean_ones a)
qed

text \<open>
  C7, as the code has it. When the argmax id at every kept position is the reference id
  there, decoding returns, and the decoded reference holds at least one entity span, the
  four values returned under \<open>precision\<close>, \<open>recall\<close>, \<open>f1\<close> and \<open>accuracy\<close> are all 1.
\<close>

theorem C7_perfect_predictions_score_one:
  assumes "argmax_axis2 predictions = Inr ids"
    and "\<forall>(prediction, label)\<in>set (zip ids labels).
           \<forall>(p, l)\<in>set (zip prediction label). l \<noteq> - 100 \<longrightarrow> p = l"
    and "true_labels all_labels ids labels = Inr tls"
    and "spans tls \<noteq> []"
  shows "compute_metrics seqeval_compute all_labels (predictions, labels) =
     Inr \<lparr>precision = Some 1, recall = Some 1, f1 = Some 1, accuracy = Some 1\<rparr>"
proof -
  have "true_predictions all_labels ids labels = true_labels all_labels ids labels"
    by (rule matching_batches_decode_alike [OF assms(2)])
  with assms(3) have tp: "true_predictions all_labels ids labels = Inr tls" by simp
  show ?thesis
    by (simp add: compute_metrics_def assms(1,3) tp seqeval_compute_same [OF assms(4)])
qed

theorem C7_witness:
  "argmax_axis2 [[[2, 1, 0], [0, 5, 1], [1, 3, 4 :: int]]] = Inr [[0, 1, 2]]
   \<and> true_labels [''O'', ''B-PER'', ''I-PER''] [[0, 1, 2]] [[- 100, 1, 2]] = Inr [[''B-PER'', ''I-PER'']]
   \<and> spans [[''B-PER'', ''I-PER'']] = [(0, ''PER'', 0, 2)]
   \<and> compute_metrics seqeval_compute [''O'', ''B-PER'', ''I-PER'']
        ([[[2, 1, 0], [0, 5, 1], [1, 3, 4 :: int]]], [[- 100, 1, 2]]) =
      Inr \<lparr>precision = Some 1, recall = Some 1, f1 = Some 1, accuracy = Some 1\<rparr>"
proof -
  have a: "argmax_axis2 [[[2, 1, 0], [0, 5, 1], [1, 3, 4 :: int]]] = Inr [[0, 1, 2]]"
    by code_simp
  have b: "\<forall>(prediction, label)\<in>set (zip [[0, 1, 2]] [[- 100, 1, 2 :: int]]).
           \<forall>(p, l)\<in>set (zip prediction label). l \<noteq> - 100 \<longrightarrow> p = l"
    by simp
  have c: "true_labels [''O'', ''B-PER'', ''I-PER''] [[0, 1, 2]] [[- 100, 1, 2]] = Inr [[''B-PER'', ''I-PER'']]"
    by code_simp
  have d: "spans [[''B-PER'', ''I-PER'']] = [(0, ''PER'', 0, 2)]"
    by code_simp
  then have e: "spans [[''B-PER'', ''I-PER'']] \<noteq> []"
    by simp
  from C7_perfect_predictions_score_one [OF a b c e] a c d show ?thesis by simp
qed

text \<open>
  C7, as stated, fails. With the vocabulary \<open>[O, B-PER]\<close>, one example and one position
  whose argmax id and reference id are both \<open>0\<close>, the prediction matches the reference
  at every kept position, but the decoded reference \<open>[O]\<close> holds no span: precision,
  recall and F1 are ratios with denominator zero and are not 1.
\<close>

theorem C7_counterexample:
  "argmax_axis2 [[[1, 0 :: int]]] = Inr [[0]]
   \<and> true_predictions [''O'', ''B-PER''] [[0]] [[0]] = Inr [[''O'']]
   \<and> true_labels [''O'', ''B-PER''] [[0]] [[0]] = Inr [[''O'']]
   \<and> compute_metrics seqeval_compute [''O'', ''B-PER''] ([[[1, 0 :: int]]], [[0]]) =
      Inr \<lparr>precision = None, recall = None, f1 = None, accuracy = Some 1\<rparr>"
proof -
  have 1: "argmax_axis2 [[[1, 0 :: int]]] = Inr [[0]]"
    by code_simp
  have 2: "true_predictions [''O'', ''B-PER''] [[0]] [[0]] = Inr [[''O'']]"
    by code_simp
  have 3: "true_labels [''O'', ''B-PER''] [[0]] [[0]] = Inr [[''O'']]"
    by code_simp
  have 4: "compute_metrics seqeval_compute [''O'', ''B-PER''] ([[[1, 0 :: int]]], [[0]]) =
      Inr \<lparr>precision = None, recall = None, f1 = None, accuracy = Some 1\<rparr>"
    by code_simp
  from 1 2 3 4 show ?thesis by simp
qed

section \<open>The datasets handed to the trainer\<close>

lemma columns_to_remove_subset:
  "set (columns_to_remove train_dataset) \<subseteq> set (column_names train_dataset)"
  unfolding columns_to_remove_def by auto

lemma remove_columns_keeps:
  assumes "set (column_names ds) = set (column_names train_dataset)"
  shows "remove_columns ds (columns_to_remove train_dataset) =
     Inr (filter (\<lambda>(n, c). n \<in> {''input_ids'', ''labels''}) ds)"
proof -
  have s: "set (columns_to_remove train_dataset) \<subseteq> set (column_names ds)"
    using columns_to_remove_subset [of train_dataset] assms by simp
  have "filter (\<lambda>(n, c). n \<notin> set (columns_to_remove train_dataset)) ds =
      filter (\<lambda>(n, c). n \<in> {''input_ids'', ''labels''}) ds"
  proof (rule filter_cong [OF refl])
    fix x assume x: "x \<in> set ds"
    obtain n c where nc: "x = (n, c)" by (cases x)
    with x have "n \<in> set (column_names ds)" by (force simp: column_names_def)
    with assms have "n \<in> set (column_names train_dataset)" by simp
    then have "n \<notin> set (columns_to_remove train_dataset) \<longleftrightarrow> n \<in> {''input_ids'', ''labels''}"
      unfolding columns_to_remove_def by simp
    with nc show "(case x of (n, c) \<Rightarrow> n \<notin> set (columns_to_remove train_dataset)) =
        (case x of (n, c) \<Rightarrow> n \<in> {''input_ids'', ''labels''})"
      by simp
  qed
  with s show ?thesis by (simp add: remove_columns_def)
qed

lemma kept_column_names:
  assumes "{''input_ids'', ''labels''} \<subseteq> set (column_names ds)"
  shows "set (column_names (filter (\<lambda>(n, c). n \<in> {''input_ids'', ''labels''}) ds)) =
     {''input_ids'', ''labels''}"
proof -
  have "set (column_names (filter (\<lambda>(n, c). n \<in> {''input_ids'', ''labels''}) ds)) =
      set (column_names ds) \<inter> {''input_ids'', ''labels''}"
    unfolding column_names_def by force
  with assms show ?thesis by blast
qed

text \<open>
  C9, as the code has it. When the train dataset has the columns \<open>input_ids\<close> and
  \<open>labels\<close> and the validation dataset has the same column names as the train dataset,
  \<^verbatim>\<open>get_trainer\<close> hands the trainer both datasets cut down to exactly these two columns,
  with the columns' data unchanged.
\<close>

theorem C9_both_datasets_keep_two_columns:
  assumes "{''input_ids'', ''labels''} \<subseteq> set (column_names train_dataset)"
    and "set (column_names val_dataset) = set (column_names train_dataset)"
  shows "get_trainer_datasets train_dataset val_dataset =
           Inr (filter (\<lambda>(n, c). n \<in> {''input_ids'', ''labels''}) train_dataset,
                filter (\<lambda>(n, c). n \<in> {''input_ids'', ''labels''}) val_dataset)
       \<and> set (column_names (filter (\<lambda>(n, c). n \<in> {''input_ids'', ''labels''}) train_dataset)) =
           {''input_ids'', ''labels''}
       \<and> set (column_names (filter (\<lambda>(n, c). n \<in> {''input_ids'', ''labels''}) val_dataset)) =
           {''input_ids'', ''labels''}"
proof -
  have t: "remove_columns train_dataset (columns_to_remove train_dataset) =
     Inr (filter (\<lambda>(n, c). n \<in> {''input_ids'', ''labels''}) train_dataset)"
    by (rule remove_columns_keeps) simp
  have v: "remove_columns val_dataset (columns_to_remove train_dataset) =
     Inr (filter (\<lambda>(n, c). n \<in> {''input_ids'', ''labels''}) val_dataset)"
    by (rule remove_columns_keeps) (rule assms(2))
  have 1: "get_trainer_datasets train_dataset val_dataset =
           Inr (filter (\<lambda>(n, c). n \<in> {''input_ids'', ''labels''}) train_dataset,
                filter (\<lambda>(n, c). n \<in> {''input_ids'', ''labels''}) val_dataset)"
    by (simp add: get_trainer_datasets_def t v)
  have 2: "set (column_names (filter (\<lambda>(n, c). n \<in> {''input_ids'', ''labels''}) train_dataset)) =
           {''input_ids'', ''labels''}"
    by (rule kept_column_names [OF assms(1)])
  from assms have "{''input_ids'', ''labels''} \<subseteq> set (column_names val_dataset)" by simp
  then have 3: "set (column_names (filter (\<lambda>(n, c). n \<in> {''input_ids'', ''labels''}) val_dataset)) =
           {''input_ids'', ''labels''}"
    by (rule kept_column_names)
  from 1 2 3 show ?thesis by (intro conjI)
qed

theorem C9_witness:
  "{''input_ids'', ''labels''} \<subseteq>
     set (column_names [(''input_ids'', [101, 7 :: int]), (''attention_mask'', [1, 1]), (''labels'', [- 100, 3])])
   \<and> get_trainer_datasets
        [(''input_ids'', [101, 7 :: int]), (''attention_mask'', [1, 1]), (''labels'', [- 100, 3])]
        [(''labels'', [- 100, 0]), (''input_ids'', [101, 9]), (''attention_mask'', [1, 1])] =
      Inr ([(''input_ids'', [101, 7]), (''labels'', [- 100, 3])],
           [(''labels'', [- 100, 0]), (''input_ids'', [101, 9])])"
proof -
  have a: "{''input_ids'', ''labels''} \<subseteq>
     set (column_names [(''input_ids'', [101, 7 :: int]), (''attention_mask'', [1, 1]), (''labels'', [- 100, 3])])"
    by (simp add: column_names_def)
  have b: "set (column_names [(''labels'', [- 100, 0 :: int]), (''input_ids'', [101, 9]), (''attention_mask'', [1, 1])]) =
     set (column_names [(''input_ids'', [101, 7 :: int]), (''attention_mask'', [1, 1]), (''labels'', [- 100, 3])])"
    by (auto simp add: column_names_def)
  from C9_both_datasets_keep_two_columns [OF a b] a show ?thesis by simp
qed

text \<open>
  C9, as stated, fails. The train dataset below has no \<open>labels\<close> column and the
  validation dataset has a column \<open>tokens\<close> that the train dataset lacks. The list of
  columns to remove, computed from the train dataset, is \<open>[attention_mask]\<close>: the train
  dataset is left with \<open>input_ids\<close> alone, the validation dataset keeps \<open>tokens\<close>.
\<close>

theorem C9_counterexample:
  "get_trainer_datasets
     [(''input_ids'', [101, 7 :: int]), (''attention_mask'', [1, 1])]
     [(''input_ids'', [101, 9]), (''attention_mask'', [1, 1]), (''tokens'', [4, 5])] =
   Inr ([(''input_ids'', [101, 7])], [(''input_ids'', [101, 9]), (''tokens'', [4, 5])])
   \<and> ''labels'' \<notin> set (column_names [(''input_ids'', [101, 7 :: int])])
   \<and> ''tokens'' \<in> set (column_names [(''input_ids'', [101, 9 :: int]), (''tokens'', [4, 5])])"
proof -
  have 1: "get_trainer_datasets
     [(''input_ids'', [101, 7 :: int]), (''attention_mask'', [1, 1])]
     [(''input_ids'', [101, 9]), (''attention_mask'', [1, 1]), (''tokens'', [4, 5])] =
   Inr ([(''input_ids'', [101, 7])], [(''input_ids'', [101, 9]), (''tokens'', [4, 5])])"
    by code_simp
  have 2: "''labels'' \<notin> set (column_names [(''input_ids'', [101, 7 :: int])])"
    by (simp add: column_names_def)
  have 3: "''tokens'' \<in> set (column_names [(''input_ids'', [101, 9 :: int]), (''tokens'', [4, 5])])"
    by (simp add: column_names_def)
  from 1 2 3 show ?thesis by (intro conjI)
qed

end
